theory Spec2Isabelle
  imports Main "HOL-Library.Word"
begin

section \<open>The NES learning-environment binding (nes\_python\_interface.py)\<close>

text \<open>
  The module is a ctypes binding: every method of \<open>NESInterface\<close> marshals its arguments,
  calls one or two functions of the native emulator library and hands the result back.
  The embedding has three layers:

  \<^item> the Python values the methods see (\<open>None\<close>, integers, numpy arrays held in a store of
    array objects, so that "the same array object" is a statement about references);
  \<^item> the native library, which is not part of the Python source: its functions are modelled
    from the specification over an explicit per-instance emulator state;
  \<^item> the methods of \<open>NESInterface\<close>, translated line by line from the source.

  Every native call is recorded in a log together with the arguments it received, so that
  what a method passes to the library is a property of the resulting world.

  Handles (the instance pointer \<open>self.obj\<close> and the snapshot pointers) are 64-bit
  pointers, as on the hosts \<open>libfceux.so\<close> is loaded on. A method that declares
  \<open>argtypes = [c_void_p, ...]\<close> passes \<open>self.obj\<close> whole. A method that declares nothing
  (\<open>getRAMSize\<close>, \<open>getRAM\<close>, \<open>cloneState\<close>, \<open>restoreState\<close>, the state codec) passes every
  Python integer as a C int and reads every result as a C int: the pointer is cut to its
  low 32 bits on the way in and on the way out. Integers that are sizes, lengths, actions
  and rewards are C ints and are modelled with their 32-bit wrap-around.
  The methods are those the properties below speak about; \<open>reset_game\<close>, the frame
  counters, \<open>saveState\<close>/\<open>loadState\<close>, the system-state clones, \<open>deleteState\<close> and
  \<open>saveScreenPNG\<close> are further one-line pass-throughs of the same shape.
\<close>

subsection \<open>Machine integers, errors, arrays\<close>

type_synonym byte = "8 word"
type_synonym c_int = "32 word"     \<comment> \<open>ctypes \<open>c_int\<close>; \<open>sint\<close> reads it as a Python int\<close>
type_synonym handle = "64 word"    \<comment> \<open>a native pointer (\<open>c_void_p\<close>)\<close>
type_synonym ref = nat             \<comment> \<open>the identity of a numpy array object\<close>

datatype error =
    ValueError | TypeError | AttributeError
  | InvalidRomFormat | UnsupportedMapper | IncompatibleSnapshot | InvalidHandle

datatype dtype = UInt8 | Int32

fun itemsize :: "dtype \<Rightarrow> nat" where
  "itemsize UInt8 = 1"
| "itemsize Int32 = 4"

text \<open>A numpy array: element type, shape and the raw memory it owns.\<close>

record ndarray =
  dtype_of :: dtype
  shape :: "nat list"
  raw :: "byte list"

definition arr_size :: "ndarray \<Rightarrow> nat" where
  "arr_size a = prod_list (shape a)"

text \<open>The Python values that reach the methods as arguments or leave them as results.\<close>

datatype pyval = PyNone | PyBool bool | PyInt int | PyArr ref

text \<open>\<open>c_int(n)\<close> and the conversion of a Python int argument to a C int: no overflow
  check, the value is reduced to 32 bits.\<close>

definition to_c_int :: "int \<Rightarrow> c_int" where
  "to_c_int n = word_of_int n"

text \<open>A call of a function whose \<open>argtypes\<close> were never set: ctypes passes a Python integer
  as a C int, masked to 32 bits, and the callee that expects a pointer there reads the
  sign-extended register.\<close>

definition as_default_arg :: "int \<Rightarrow> handle" where
  "as_default_arg n = scast (to_c_int n)"

text \<open>A call of a function whose \<open>restype\<close> was never set: the result is read as a C int,
  so of a returned pointer the low 32 bits come back, as a signed Python integer.\<close>

definition as_default_result :: "handle \<Rightarrow> int" where
  "as_default_result p = sint (ucast p :: c_int)"

text \<open>A pointer that comes through both conversions unchanged: its upper 33 bits are equal
  (in particular every pointer below \<open>2^31\<close>).\<close>

definition survives_c_int :: "handle \<Rightarrow> bool" where
  "survives_c_int h = ((scast (ucast h :: c_int) :: handle) = h)"

text \<open>Little-endian layout of a C int in an \<open>Int32\<close> array.\<close>

definition le32 :: "c_int \<Rightarrow> byte list" where
  "le32 v = [ucast v, ucast (drop_bit 8 v), ucast (drop_bit 16 v), ucast (drop_bit 24 v)]"

text \<open>A native function writing \<open>data\<close> through a pointer to a buffer: the bytes land at
  the start of the buffer; what does not fit is cut off.\<close>

definition write_bytes :: "byte list \<Rightarrow> byte list \<Rightarrow> byte list" where
  "write_bytes data buf = take (length buf) data @ drop (length data) buf"

subsection \<open>The native emulator core\<close>

text \<open>
  Modelled from the spec: the native library \<open>libfceux.so\<close> (the emulator core behind every
  \<open>nes_lib\<close> call) is not among the Python sources. The spec's data model gives the live
  state of one instance as CPU state, system RAM, PPU state and mapper state next to an
  immutable cartridge; a snapshot is a versioned, independently owned copy of those four.
\<close>

record ('c, 'p, 'm) machine =
  cpu :: 'c
  ram :: "byte list"
  ppu :: 'p
  mapper :: 'm

record ('c, 'p, 'm) snapshot =
  version :: nat
  s_cpu :: 'c
  s_ram :: "byte list"
  s_ppu :: 'p
  s_mapper :: 'm

record ('r, 'c, 'p, 'm) emulator =
  cart :: 'r
  live :: "('c, 'p, 'm) machine"

text \<open>
  Modelled from the spec: the components of the core that the spec describes but whose
  code is absent (ROM loader, frame stepping, frame-buffer extraction, palette, action
  enumeration, snapshot codec) are the fields of a record of pure functions. Nothing is
  assumed about them beyond their types.
\<close>

record ('r, 'c, 'p, 'm) core =
  load_rom :: "string \<Rightarrow> error + ('r, 'c, 'p, 'm) emulator"
  run_frame :: "'r \<Rightarrow> c_int \<Rightarrow> ('c, 'p, 'm) machine \<Rightarrow> ('c, 'p, 'm) machine \<times> c_int"
  game_over_of :: "'r \<Rightarrow> ('c, 'p, 'm) machine \<Rightarrow> bool"
  legal_actions :: "'r \<Rightarrow> ('c, 'p, 'm) machine \<Rightarrow> c_int list"
  screen_width :: "'r \<Rightarrow> c_int"
  screen_height :: "'r \<Rightarrow> c_int"
  frame_of :: "'p \<Rightarrow> byte list"
  palette_rgb :: "'p \<Rightarrow> byte \<Rightarrow> byte list"
  ram_size :: "'r \<Rightarrow> nat"
  format_version :: nat
  encode_snap :: "('c, 'p, 'm) snapshot \<Rightarrow> byte list"
  decode_snap :: "byte list \<Rightarrow> ('c, 'p, 'm) snapshot option"

text \<open>
  Modelled from the spec (4.6): \<open>capture\<close> copies CPU state, RAM, PPU state and mapper
  state into a blob tagged with the format version; \<open>restore\<close> fails with
  \<open>IncompatibleSnapshot\<close> if the version or the memory size does not match the current
  cartridge and otherwise overwrites all live state.
\<close>

definition capture :: "('r, 'c, 'p, 'm) core \<Rightarrow> ('c, 'p, 'm) machine \<Rightarrow> ('c, 'p, 'm) snapshot" where
  "capture L m =
     \<lparr>version = format_version L, s_cpu = cpu m, s_ram = ram m, s_ppu = ppu m,
      s_mapper = mapper m\<rparr>"

definition restore ::
  "('r, 'c, 'p, 'm) core \<Rightarrow> 'r \<Rightarrow> ('c, 'p, 'm) snapshot \<Rightarrow> error + ('c, 'p, 'm) machine" where
  "restore L c s =
     (if version s \<noteq> format_version L \<or> length (s_ram s) \<noteq> ram_size L c
      then Inl IncompatibleSnapshot
      else Inr \<lparr>cpu = s_cpu s, ram = s_ram s, ppu = s_ppu s, mapper = s_mapper s\<rparr>)"

subsection \<open>The world: native objects, numpy arrays, the log of native calls\<close>

datatype ncall =
    N_NESInterface string
  | N_act handle c_int
  | N_gameOver handle
  | N_getNumLegalActions handle
  | N_getLegalActionSet handle ref
  | N_getScreenWidth handle
  | N_getScreenHeight handle
  | N_getScreen handle ref c_int
  | N_fillRGBfromPalette handle ref ref c_int
  | N_getRAMSize handle
  | N_getRAM handle ref
  | N_cloneState handle
  | N_restoreState handle handle
  | N_encodeStateLen handle
  | N_encodeState handle ref c_int
  | N_decodeState ref c_int

record ('r, 'c, 'p, 'm) world =
  emus :: "handle \<Rightarrow> ('r, 'c, 'p, 'm) emulator option"
  snaps :: "handle \<Rightarrow> ('c, 'p, 'm) snapshot option"
  next_handle :: handle
  arrays :: "ref \<Rightarrow> ndarray option"
  next_ref :: ref
  junk :: "nat \<Rightarrow> byte"          \<comment> \<open>what uninitialised memory happens to hold\<close>
  calls :: "ncall list"

text \<open>A computation either raises or returns; the world it leaves behind is there in both
  cases (a Python exception does not undo what happened before it).\<close>

type_synonym ('a, 'w) py = "'w \<Rightarrow> (error + 'a) \<times> 'w"

definition ret :: "'a \<Rightarrow> ('a, 'w) py" where
  "ret x w = (Inr x, w)"

definition raise :: "error \<Rightarrow> ('a, 'w) py" where
  "raise e w = (Inl e, w)"

definition then_py :: "('a, 'w) py \<Rightarrow> ('a \<Rightarrow> ('b, 'w) py) \<Rightarrow> ('b, 'w) py" where
  "then_py m f w = (case m w of (Inl e, w') \<Rightarrow> (Inl e, w') | (Inr x, w') \<Rightarrow> f x w')"

definition logged :: "ncall \<Rightarrow> ('r, 'c, 'p, 'm) world \<Rightarrow> ('r, 'c, 'p, 'm) world" where
  "logged c w = w\<lparr>calls := calls w @ [c]\<rparr>"

definition poke :: "ref \<Rightarrow> byte list \<Rightarrow> ('r, 'c, 'p, 'm) world \<Rightarrow> ('r, 'c, 'p, 'm) world" where
  "poke r data w =
     (case arrays w r of
        None \<Rightarrow> w
      | Some a \<Rightarrow> w\<lparr>arrays := (arrays w)(r \<mapsto> a\<lparr>raw := write_bytes data (raw a)\<rparr>)\<rparr>)"

definition peek :: "ref \<Rightarrow> ('r, 'c, 'p, 'm) world \<Rightarrow> byte list" where
  "peek r w = (case arrays w r of None \<Rightarrow> [] | Some a \<Rightarrow> raw a)"

text \<open>A native function of an instance: logs the call, fails on a handle that names no
  live instance, and otherwise runs on that instance's emulator.\<close>

definition on_emu ::
  "ncall \<Rightarrow> handle \<Rightarrow>
   (('r, 'c, 'p, 'm) emulator \<Rightarrow> ('a, ('r, 'c, 'p, 'm) world) py) \<Rightarrow>
   ('a, ('r, 'c, 'p, 'm) world) py" where
  "on_emu c h f w =
     (case emus w h of
        None \<Rightarrow> (Inl InvalidHandle, logged c w)
      | Some e \<Rightarrow> f e (logged c w))"

subsection \<open>The functions of the native library\<close>

text \<open>Modelled from the spec (6, lifecycle): \<open>create(romPath) -> handle\<close>; a ROM that does
  not load makes the constructor fail.\<close>

definition n_NESInterface ::
  "('r, 'c, 'p, 'm) core \<Rightarrow> string \<Rightarrow> (handle, ('r, 'c, 'p, 'm) world) py" where
  "n_NESInterface L rom w =
     (case load_rom L rom of
        Inl err \<Rightarrow> (Inl err, logged (N_NESInterface rom) w)
      | Inr e \<Rightarrow>
          (Inr (next_handle w),
           (logged (N_NESInterface rom) w)
             \<lparr>emus := (emus w)(next_handle w \<mapsto> e), next_handle := next_handle w + 1\<rparr>))"

text \<open>Modelled from the spec (4.5, 6): \<open>act(handle, actionIndex) -> reward\<close> latches the
  input and runs one frame on the instance.\<close>

definition n_act ::
  "('r, 'c, 'p, 'm) core \<Rightarrow> handle \<Rightarrow> c_int \<Rightarrow> (c_int, ('r, 'c, 'p, 'm) world) py" where
  "n_act L h a =
     on_emu (N_act h a) h (\<lambda>e w.
       (Inr (snd (run_frame L (cart e) a (live e))),
        w\<lparr>emus := (emus w)(h \<mapsto> e\<lparr>live := fst (run_frame L (cart e) a (live e))\<rparr>)\<rparr>))"

definition n_gameOver ::
  "('r, 'c, 'p, 'm) core \<Rightarrow> handle \<Rightarrow> (bool, ('r, 'c, 'p, 'm) world) py" where
  "n_gameOver L h = on_emu (N_gameOver h) h (\<lambda>e. ret (game_over_of L (cart e) (live e)))"

text \<open>Modelled from the spec (6, action enumeration).\<close>

definition n_getNumLegalActions ::
  "('r, 'c, 'p, 'm) core \<Rightarrow> handle \<Rightarrow> (c_int, ('r, 'c, 'p, 'm) world) py" where
  "n_getNumLegalActions L h =
     on_emu (N_getNumLegalActions h) h
       (\<lambda>e. ret (of_nat (length (legal_actions L (cart e) (live e)))))"

definition n_getLegalActionSet ::
  "('r, 'c, 'p, 'm) core \<Rightarrow> handle \<Rightarrow> ref \<Rightarrow> (unit, ('r, 'c, 'p, 'm) world) py" where
  "n_getLegalActionSet L h r =
     on_emu (N_getLegalActionSet h r) h (\<lambda>e w.
       (Inr (), poke r (concat (map le32 (legal_actions L (cart e) (live e)))) w))"

text \<open>Modelled from the spec (6, video): width and height queries, \<open>getScreen\<close> writing
  at most \<open>bufferSize\<close> palette-index bytes of the frame buffer, and the palette
  resolution of that many indices into RGB triples.\<close>

definition n_getScreenWidth ::
  "('r, 'c, 'p, 'm) core \<Rightarrow> handle \<Rightarrow> (c_int, ('r, 'c, 'p, 'm) world) py" where
  "n_getScreenWidth L h = on_emu (N_getScreenWidth h) h (\<lambda>e. ret (screen_width L (cart e)))"

definition n_getScreenHeight ::
  "('r, 'c, 'p, 'm) core \<Rightarrow> handle \<Rightarrow> (c_int, ('r, 'c, 'p, 'm) world) py" where
  "n_getScreenHeight L h = on_emu (N_getScreenHeight h) h (\<lambda>e. ret (screen_height L (cart e)))"

definition n_getScreen ::
  "('r, 'c, 'p, 'm) core \<Rightarrow> handle \<Rightarrow> ref \<Rightarrow> c_int \<Rightarrow> (unit, ('r, 'c, 'p, 'm) world) py" where
  "n_getScreen L h r n =
     on_emu (N_getScreen h r n) h (\<lambda>e w.
       (Inr (), poke r (take (nat (sint n)) (frame_of L (ppu (live e)))) w))"

definition n_fillRGBfromPalette ::
  "('r, 'c, 'p, 'm) core \<Rightarrow> handle \<Rightarrow> ref \<Rightarrow> ref \<Rightarrow> c_int \<Rightarrow> (unit, ('r, 'c, 'p, 'm) world) py" where
  "n_fillRGBfromPalette L h src dst n =
     on_emu (N_fillRGBfromPalette h src dst n) h (\<lambda>e w.
       (Inr (),
        poke dst (concat (map (\<lambda>b. take 3 (palette_rgb L (ppu (live e)) b))
                           (take (nat (sint n)) (peek src w)))) w))"

text \<open>Modelled from the spec (6, memory).\<close>

definition n_getRAMSize ::
  "('r, 'c, 'p, 'm) core \<Rightarrow> handle \<Rightarrow> (c_int, ('r, 'c, 'p, 'm) world) py" where
  "n_getRAMSize L h = on_emu (N_getRAMSize h) h (\<lambda>e. ret (of_nat (ram_size L (cart e))))"

definition n_getRAM ::
  "('r, 'c, 'p, 'm) core \<Rightarrow> handle \<Rightarrow> ref \<Rightarrow> (unit, ('r, 'c, 'p, 'm) world) py" where
  "n_getRAM L h r =
     on_emu (N_getRAM h r) h (\<lambda>e w. (Inr (), poke r (ram (live e)) w))"

text \<open>Modelled from the spec (4.6, 6, state): \<open>cloneState\<close> returns a handle to a snapshot
  owned by the caller, \<open>restoreState\<close> overwrites the live state from one, and
  \<open>encodeStateLen\<close>, \<open>encodeState\<close>, \<open>decodeState\<close> are the byte serialization of a snapshot.\<close>

definition n_cloneState ::
  "('r, 'c, 'p, 'm) core \<Rightarrow> handle \<Rightarrow> (handle, ('r, 'c, 'p, 'm) world) py" where
  "n_cloneState L h =
     on_emu (N_cloneState h) h (\<lambda>e w.
       (Inr (next_handle w),
        w\<lparr>snaps := (snaps w)(next_handle w \<mapsto> capture L (live e)),
          next_handle := next_handle w + 1\<rparr>))"

definition n_restoreState ::
  "('r, 'c, 'p, 'm) core \<Rightarrow> handle \<Rightarrow> handle \<Rightarrow> (unit, ('r, 'c, 'p, 'm) world) py" where
  "n_restoreState L h s =
     on_emu (N_restoreState h s) h (\<lambda>e w.
       (case snaps w s of
          None \<Rightarrow> (Inl InvalidHandle, w)
        | Some sn \<Rightarrow>
            (case restore L (cart e) sn of
               Inl err \<Rightarrow> (Inl err, w)
             | Inr m \<Rightarrow> (Inr (), w\<lparr>emus := (emus w)(h \<mapsto> e\<lparr>live := m\<rparr>)\<rparr>))))"

definition on_snap ::
  "ncall \<Rightarrow> handle \<Rightarrow>
   (('c, 'p, 'm) snapshot \<Rightarrow> ('a, ('r, 'c, 'p, 'm) world) py) \<Rightarrow>
   ('a, ('r, 'c, 'p, 'm) world) py" where
  "on_snap c s f w =
     (case snaps w s of
        None \<Rightarrow> (Inl InvalidHandle, logged c w)
      | Some sn \<Rightarrow> f sn (logged c w))"

definition n_encodeStateLen ::
  "('r, 'c, 'p, 'm) core \<Rightarrow> handle \<Rightarrow> (c_int, ('r, 'c, 'p, 'm) world) py" where
  "n_encodeStateLen L s =
     on_snap (N_encodeStateLen s) s (\<lambda>sn. ret (of_nat (length (encode_snap L sn))))"

definition n_encodeState ::
  "('r, 'c, 'p, 'm) core \<Rightarrow> handle \<Rightarrow> ref \<Rightarrow> c_int \<Rightarrow> (unit, ('r, 'c, 'p, 'm) world) py" where
  "n_encodeState L s r n =
     on_snap (N_encodeState s r n) s (\<lambda>sn w.
       (Inr (), poke r (take (nat (sint n)) (encode_snap L sn)) w))"

definition n_decodeState ::
  "('r, 'c, 'p, 'm) core \<Rightarrow> ref \<Rightarrow> c_int \<Rightarrow> (handle, ('r, 'c, 'p, 'm) world) py" where
  "n_decodeState L r n w =
     (case decode_snap L (take (nat (sint n)) (peek r w)) of
        None \<Rightarrow> (Inl IncompatibleSnapshot, logged (N_decodeState r n) w)
      | Some sn \<Rightarrow>
          (Inr (next_handle w),
           (logged (N_decodeState r n) w)
             \<lparr>snaps := (snaps w)(next_handle w \<mapsto> sn), next_handle := next_handle w + 1\<rparr>))"

subsection \<open>numpy and the Python built-ins the methods use\<close>

definition alloc :: "ndarray \<Rightarrow> (ref, ('r, 'c, 'p, 'm) world) py" where
  "alloc a w =
     (Inr (next_ref w), w\<lparr>arrays := (arrays w)(next_ref w \<mapsto> a), next_ref := Suc (next_ref w)\<rparr>)"

text \<open>\<open>np.zeros(shape, dtype)\<close>: a new zero-filled array; a negative dimension raises
  \<open>ValueError\<close>.\<close>

definition np_zeros :: "int list \<Rightarrow> dtype \<Rightarrow> (ref, ('r, 'c, 'p, 'm) world) py" where
  "np_zeros dims dt =
     (if list_ex (\<lambda>d. d < 0) dims then raise ValueError
      else alloc \<lparr>dtype_of = dt, shape = map nat dims,
                  raw = replicate (prod_list (map nat dims) * itemsize dt) 0\<rparr>)"

text \<open>\<open>np.empty(shape, dtype)\<close>: a new array whose memory is not initialised.\<close>

definition np_empty :: "int list \<Rightarrow> dtype \<Rightarrow> (ref, ('r, 'c, 'p, 'm) world) py" where
  "np_empty dims dt w =
     (if list_ex (\<lambda>d. d < 0) dims then raise ValueError w
      else alloc \<lparr>dtype_of = dt, shape = map nat dims,
                  raw = map (junk w) [0 ..< prod_list (map nat dims) * itemsize dt]\<rparr> w)"

text \<open>\<open>as_ctypes(obj)\<close>: a ctypes view of the array's own memory (the native function sees
  the array itself); an object without an array interface raises \<open>AttributeError\<close>.\<close>

definition as_ctypes :: "pyval \<Rightarrow> (ref, ('r, 'c, 'p, 'm) world) py" where
  "as_ctypes v = (case v of PyArr r \<Rightarrow> ret r | _ \<Rightarrow> raise AttributeError)"

text \<open>\<open>obj.size\<close>: the number of elements of an array.\<close>

definition py_size :: "pyval \<Rightarrow> (int, ('r, 'c, 'p, 'm) world) py" where
  "py_size v w =
     (case v of
        PyArr r \<Rightarrow>
          (case arrays w r of
             None \<Rightarrow> (Inl AttributeError, w)
           | Some a \<Rightarrow> (Inr (int (arr_size a)), w))
      | _ \<Rightarrow> (Inl AttributeError, w))"

text \<open>\<open>len(obj)\<close>: the first dimension of an array; \<open>TypeError\<close> for an array without
  dimensions and for \<open>None\<close>, integers and booleans.\<close>

definition py_len :: "pyval \<Rightarrow> (int, ('r, 'c, 'p, 'm) world) py" where
  "py_len v w =
     (case v of
        PyArr r \<Rightarrow>
          (case arrays w r of
             None \<Rightarrow> (Inl TypeError, w)
           | Some a \<Rightarrow> (case shape a of [] \<Rightarrow> (Inl TypeError, w) | n # _ \<Rightarrow> (Inr (int n), w)))
      | _ \<Rightarrow> (Inl TypeError, w))"

text \<open>The test \<open>if buf == None:\<close>. For \<open>None\<close> it is true, for an integer or boolean false.
  For a numpy array \<open>==\<close> compares element by element and yields an array of \<open>False\<close>;
  taking the truth value of an array of two or more elements raises \<open>ValueError\<close>, and of
  a smaller one gives that of its element (false; false too for an empty array).\<close>

definition eq_None_test :: "pyval \<Rightarrow> (bool, ('r, 'c, 'p, 'm) world) py" where
  "eq_None_test v w =
     (case v of
        PyNone \<Rightarrow> (Inr True, w)
      | PyArr r \<Rightarrow>
          (case arrays w r of
             None \<Rightarrow> (Inr False, w)
           | Some a \<Rightarrow> if 2 \<le> arr_size a then (Inl ValueError, w) else (Inr False, w))
      | _ \<Rightarrow> (Inr False, w))"

definition from_le32 :: "byte list \<Rightarrow> c_int" where
  "from_le32 bs =
     (case bs of
        [b0, b1, b2, b3] \<Rightarrow>
          or (ucast b0) (or (push_bit 8 (ucast b1)) (or (push_bit 16 (ucast b2)) (push_bit 24 (ucast b3))))
      | _ \<Rightarrow> 0)"

text \<open>\<open>int(x)\<close>: an integer is itself, a boolean 0 or 1, a one-element array its element;
  \<open>None\<close> and any other array raise \<open>TypeError\<close>.\<close>

definition py_int :: "pyval \<Rightarrow> (int, ('r, 'c, 'p, 'm) world) py" where
  "py_int v w =
     (case v of
        PyInt n \<Rightarrow> (Inr n, w)
      | PyBool b \<Rightarrow> (Inr (if b then 1 else 0), w)
      | PyNone \<Rightarrow> (Inl TypeError, w)
      | PyArr r \<Rightarrow>
          (case arrays w r of
             None \<Rightarrow> (Inl TypeError, w)
           | Some a \<Rightarrow>
               if arr_size a \<noteq> 1 then (Inl TypeError, w)
               else (case dtype_of a of
                       UInt8 \<Rightarrow> (Inr (uint (hd (raw a))), w)
                     | Int32 \<Rightarrow> (Inr (sint (from_le32 (take 4 (raw a)))), w))))"

subsection \<open>The class NESInterface\<close>

record nes =
  obj :: handle
  width :: int
  height :: int

definition getScreenDims ::
  "('r, 'c, 'p, 'm) core \<Rightarrow> nes \<Rightarrow> (int \<times> int, ('r, 'c, 'p, 'm) world) py" where
  "getScreenDims L self =
     then_py (n_getScreenWidth L (obj self)) (\<lambda>wd.
     then_py (n_getScreenHeight L (obj self)) (\<lambda>ht.
     ret (sint wd, sint ht)))"

text \<open>\<open>__init__\<close>: the attributes \<open>width\<close> and \<open>height\<close> do not exist before
  \<open>getScreenDims\<close> has returned; that method reads \<open>obj\<close> only.\<close>

definition NESInterface_init ::
  "('r, 'c, 'p, 'm) core \<Rightarrow> string \<Rightarrow> (nes, ('r, 'c, 'p, 'm) world) py" where
  "NESInterface_init L rom =
     then_py (n_NESInterface L rom) (\<lambda>h.
     then_py (getScreenDims L \<lparr>obj = h, width = 0, height = 0\<rparr>) (\<lambda>d.
     ret \<lparr>obj = h, width = fst d, height = snd d\<rparr>))"

definition act :: "('r, 'c, 'p, 'm) core \<Rightarrow> nes \<Rightarrow> pyval \<Rightarrow> (int, ('r, 'c, 'p, 'm) world) py" where
  "act L self action =
     then_py (py_int action) (\<lambda>n.
     then_py (n_act L (obj self) (to_c_int n)) (\<lambda>r.
     ret (sint r)))"

definition game_over :: "('r, 'c, 'p, 'm) core \<Rightarrow> nes \<Rightarrow> (bool, ('r, 'c, 'p, 'm) world) py" where
  "game_over L self = n_gameOver L (obj self)"

definition getLegalActionSet ::
  "('r, 'c, 'p, 'm) core \<Rightarrow> nes \<Rightarrow> (pyval, ('r, 'c, 'p, 'm) world) py" where
  "getLegalActionSet L self =
     then_py (n_getNumLegalActions L (obj self)) (\<lambda>act_size.
     then_py (np_zeros [sint act_size] Int32) (\<lambda>a.
     then_py (as_ctypes (PyArr a)) (\<lambda>p.
     then_py (n_getLegalActionSet L (obj self) p) (\<lambda>_.
     ret (PyArr a)))))"

definition getMinimalActionSet ::
  "('r, 'c, 'p, 'm) core \<Rightarrow> nes \<Rightarrow> (pyval, ('r, 'c, 'p, 'm) world) py" where
  "getMinimalActionSet L self = getLegalActionSet L self"

definition getScreen ::
  "('r, 'c, 'p, 'm) core \<Rightarrow> nes \<Rightarrow> pyval \<Rightarrow> (pyval, ('r, 'c, 'p, 'm) world) py" where
  "getScreen L self screen_data =
     then_py (if screen_data = PyNone
              then then_py (np_zeros [width self * height self] UInt8) (\<lambda>r. ret (PyArr r))
              else ret screen_data) (\<lambda>sd.
     then_py (as_ctypes sd) (\<lambda>p.
     then_py (py_size sd) (\<lambda>n.
     then_py (n_getScreen L (obj self) p (to_c_int n)) (\<lambda>_.
     ret sd))))"

definition getScreenRBG ::
  "('r, 'c, 'p, 'm) core \<Rightarrow> nes \<Rightarrow> pyval \<Rightarrow> (pyval, ('r, 'c, 'p, 'm) world) py" where
  "getScreenRBG L self screen_data =
     then_py (if screen_data = PyNone
              then then_py (np_empty [height self, width self, 1] UInt8) (\<lambda>r. ret (PyArr r))
              else ret screen_data) (\<lambda>sd.
     then_py (as_ctypes sd) (\<lambda>p.
     then_py (py_size sd) (\<lambda>n.
     then_py (n_getScreen L (obj self) p (to_c_int n)) (\<lambda>_.
     then_py (np_empty [height self, width self, 3] UInt8) (\<lambda>rgb.
     then_py (as_ctypes sd) (\<lambda>p_in.
     then_py (as_ctypes (PyArr rgb)) (\<lambda>p_out.
     then_py (py_size sd) (\<lambda>n'.
     then_py (n_fillRGBfromPalette L (obj self) p_in p_out (to_c_int n')) (\<lambda>_.
     ret (PyArr rgb))))))))))"


definition getRAM ::
  "('r, 'c, 'p, 'm) core \<Rightarrow> nes \<Rightarrow> pyval \<Rightarrow> (pyval, ('r, 'c, 'p, 'm) world) py" where
  "getRAM L self ram_arg =
     then_py (if ram_arg = PyNone
              then then_py (n_getRAMSize L (as_default_arg (uint (obj self)))) (\<lambda>ram_size.
                   then_py (np_zeros [sint ram_size] UInt8) (\<lambda>r. ret (PyArr r)))
              else ret ram_arg) (\<lambda>rm.
     then_py (as_ctypes rm) (\<lambda>p.
     then_py (n_getRAM L (as_default_arg (uint (obj self))) p) (\<lambda>_.
     ret rm)))"

text \<open>The state methods declare neither \<open>argtypes\<close> nor \<open>restype\<close>. What \<open>cloneState\<close> and
  \<open>decodeState\<close> return is the Python integer read from the C int result; the \<open>state\<close>
  the other methods take is a Python integer passed as a default C int argument.\<close>

definition cloneState :: "('r, 'c, 'p, 'm) core \<Rightarrow> nes \<Rightarrow> (int, ('r, 'c, 'p, 'm) world) py" where
  "cloneState L self =
     then_py (n_cloneState L (as_default_arg (uint (obj self)))) (\<lambda>p.
     ret (as_default_result p))"

definition restoreState ::
  "('r, 'c, 'p, 'm) core \<Rightarrow> nes \<Rightarrow> int \<Rightarrow> (unit, ('r, 'c, 'p, 'm) world) py" where
  "restoreState L self state =
     n_restoreState L (as_default_arg (uint (obj self))) (as_default_arg state)"

definition encodeStateLen ::
  "('r, 'c, 'p, 'm) core \<Rightarrow> nes \<Rightarrow> int \<Rightarrow> (int, ('r, 'c, 'p, 'm) world) py" where
  "encodeStateLen L self state =
     then_py (n_encodeStateLen L (as_default_arg state)) (\<lambda>n. ret (sint n))"

text \<open>\<open>encodeState\<close> has no \<open>return\<close> statement: a call that does not raise yields \<open>None\<close>.\<close>

definition encodeState ::
  "('r, 'c, 'p, 'm) core \<Rightarrow> nes \<Rightarrow> int \<Rightarrow> pyval \<Rightarrow> (pyval, ('r, 'c, 'p, 'm) world) py" where
  "encodeState L self state buf =
     then_py (eq_None_test buf) (\<lambda>is_none.
     then_py (if is_none
              then then_py (n_encodeStateLen L (as_default_arg state)) (\<lambda>len.
                   then_py (np_zeros [sint len] UInt8) (\<lambda>r. ret (PyArr r)))
              else ret buf) (\<lambda>b.
     then_py (as_ctypes b) (\<lambda>p.
     then_py (py_len b) (\<lambda>n.
     then_py (n_encodeState L (as_default_arg state) p (to_c_int n)) (\<lambda>_.
     ret PyNone)))))"

definition decodeState ::
  "('r, 'c, 'p, 'm) core \<Rightarrow> nes \<Rightarrow> pyval \<Rightarrow> (int, ('r, 'c, 'p, 'm) world) py" where
  "decodeState L self serialized =
     then_py (as_ctypes serialized) (\<lambda>p.
     then_py (py_len serialized) (\<lambda>n.
     then_py (n_decodeState L p (to_c_int n)) (\<lambda>h.
     ret (as_default_result h))))"

subsection \<open>Observations and scenarios\<close>

text \<open>The bytes an array result holds.\<close>

definition contents :: "pyval \<Rightarrow> ('r, 'c, 'p, 'm) world \<Rightarrow> byte list" where
  "contents v w = (case v of PyArr r \<Rightarrow> peek r w | _ \<Rightarrow> [])"

text \<open>What a caller can observe of an instance: the RAM, the frame buffer and the action
  set, each fetched through the binding into a fresh array.\<close>

definition observe ::
  "('r, 'c, 'p, 'm) core \<Rightarrow> nes \<Rightarrow>
   (byte list \<times> byte list \<times> byte list, ('r, 'c, 'p, 'm) world) py" where
  "observe L self =
     then_py (getRAM L self PyNone) (\<lambda>rm w1.
     then_py (getScreen L self PyNone) (\<lambda>scr w2.
     then_py (getLegalActionSet L self) (\<lambda>acts w3.
       (Inr (contents rm w1, contents scr w2, contents acts w3), w3)) w2) w1)"

definition observable ::
  "('r, 'c, 'p, 'm) core \<Rightarrow> nes \<Rightarrow> ('r, 'c, 'p, 'm) world \<Rightarrow>
   error + byte list \<times> byte list \<times> byte list" where
  "observable L self w = fst (observe L self w)"

text \<open>One step of an episode: \<open>act\<close>, then the frame buffer and the RAM.\<close>

definition step_obs ::
  "('r, 'c, 'p, 'm) core \<Rightarrow> nes \<Rightarrow> int \<Rightarrow>
   (int \<times> byte list \<times> byte list, ('r, 'c, 'p, 'm) world) py" where
  "step_obs L self a =
     then_py (act L self (PyInt a)) (\<lambda>reward.
     then_py (getScreen L self PyNone) (\<lambda>scr w1.
     then_py (getRAM L self PyNone) (\<lambda>rm w2.
       (Inr (reward, contents scr w1, contents rm w2), w2)) w1))"

text \<open>An episode feeds the actions in order and collects what each step shows, up to the
  first call that raises.\<close>

fun episode ::
  "('r, 'c, 'p, 'm) core \<Rightarrow> nes \<Rightarrow> int list \<Rightarrow> ('r, 'c, 'p, 'm) world \<Rightarrow>
   ((int \<times> byte list \<times> byte list) list \<times> error option) \<times> ('r, 'c, 'p, 'm) world" where
  "episode L self [] w = (([], None), w)"
| "episode L self (a # as) w =
     (case step_obs L self a w of
        (Inl err, w') \<Rightarrow> (([], Some err), w')
      | (Inr ob, w') \<Rightarrow>
          (case episode L self as w' of
             ((obs, r), w'') \<Rightarrow> ((ob # obs, r), w'')))"

definition fresh_run ::
  "('r, 'c, 'p, 'm) core \<Rightarrow> string \<Rightarrow> int list \<Rightarrow> ('r, 'c, 'p, 'm) world \<Rightarrow>
   ((int \<times> byte list \<times> byte list) list \<times> error option) \<times> ('r, 'c, 'p, 'm) world" where
  "fresh_run L rom acts w =
     (case NESInterface_init L rom w of
        (Inl err, w') \<Rightarrow> (([], Some err), w')
      | (Inr self, w') \<Rightarrow> episode L self acts w')"

text \<open>A sequence of \<open>act\<close> calls on the live instance.\<close>

fun act_seq ::
  "('r, 'c, 'p, 'm) core \<Rightarrow> nes \<Rightarrow> int list \<Rightarrow> (unit, ('r, 'c, 'p, 'm) world) py" where
  "act_seq L self [] = ret ()"
| "act_seq L self (a # as) = then_py (act L self (PyInt a)) (\<lambda>_. act_seq L self as)"


subsection \<open>A small concrete core\<close>

text \<open>A two-by-two screen, two bytes of RAM, a frame counter for a CPU: enough to run
  every method of the binding on concrete values.\<close>

definition toy_core :: "(unit, nat, byte list, unit) core" where
  "toy_core =
     \<lparr>load_rom = (\<lambda>rom. if rom = ''mario.nes''
                   then Inr \<lparr>cart = (), live = \<lparr>cpu = 0, ram = [7, 9], ppu = [1, 2, 3, 4], mapper = ()\<rparr>\<rparr>
                   else Inl InvalidRomFormat),
      run_frame = (\<lambda>c a m. (m\<lparr>cpu := Suc (cpu m), ram := map (\<lambda>b. b + ucast a) (ram m),
                               ppu := map (\<lambda>b. b + 1) (ppu m)\<rparr>, a + 1)),
      game_over_of = (\<lambda>c m. 3 \<le> cpu m),
      legal_actions = (\<lambda>c m. [0, 1]),
      screen_width = (\<lambda>c. 2),
      screen_height = (\<lambda>c. 2),
      frame_of = (\<lambda>p. p),
      palette_rgb = (\<lambda>p b. [b, b + 1, b + 2]),
      ram_size = (\<lambda>c. 2),
      format_version = 1,
      encode_snap = (\<lambda>s. s_ram s @ s_ppu s),
      decode_snap = (\<lambda>bs. Some \<lparr>version = 1, s_cpu = 0, s_ram = take 2 bs, s_ppu = drop 2 bs,
                                 s_mapper = ()\<rparr>)\<rparr>"

definition toy_emu :: "(unit, nat, byte list, unit) emulator" where
  "toy_emu = \<lparr>cart = (), live = \<lparr>cpu = 0, ram = [7, 9], ppu = [1, 2, 3, 4], mapper = ()\<rparr>\<rparr>"

definition toy_nes :: nes where
  "toy_nes = \<lparr>obj = 1, width = 2, height = 2\<rparr>"

text \<open>A process in which \<open>toy_nes\<close> has been constructed, holding one caller-made array of
  four bytes (reference 0) and one snapshot (handle 2).\<close>

definition toy_world :: "(unit, nat, byte list, unit) world" where
  "toy_world =
     \<lparr>emus = [1 \<mapsto> toy_emu],
      snaps = [2 \<mapsto> capture toy_core (live toy_emu)],
      next_handle = 3,
      arrays = [0 \<mapsto> \<lparr>dtype_of = UInt8, shape = [4], raw = [0, 0, 0, 0]\<rparr>],
      next_ref = 1,
      junk = (\<lambda>_. 0),
      calls = []\<rparr>"

text \<open>A process whose allocator has reached address \<open>h\<close>: the instance of \<open>toy_nes\<close> has run
  two frames since the snapshot at handle 2 was taken.\<close>

definition far_world :: "handle \<Rightarrow> (unit, nat, byte list, unit) world" where
  "far_world h =
     \<lparr>emus = [1 \<mapsto> \<lparr>cart = (), live = \<lparr>cpu = 2, ram = [10, 12], ppu = [3, 4, 5, 6],
                                          mapper = ()\<rparr>\<rparr>],
      snaps = [2 \<mapsto> capture toy_core (live toy_emu)],
      next_handle = h,
      arrays = Map.empty,
      next_ref = 0,
      junk = (\<lambda>_. 0),
      calls = []\<rparr>"

definition empty_world :: "(unit, nat, byte list, unit) world" where
  "empty_world =
     \<lparr>emus = Map.empty, snaps = Map.empty, next_handle = 1, arrays = Map.empty,
      next_ref = 0, junk = (\<lambda>_. 0), calls = []\<rparr>"

section \<open>Properties\<close>

subsection \<open>Unfolding and basic facts\<close>

lemmas py_defs = then_py_def ret_def raise_def
lemmas nat_defs = on_emu_def on_snap_def logged_def poke_def peek_def
lemmas np_defs = np_zeros_def np_empty_def alloc_def as_ctypes_def py_size_def py_len_def
  eq_None_test_def arr_size_def
lemmas toy_defs = toy_core_def toy_world_def toy_emu_def toy_nes_def capture_def to_c_int_def
  as_default_arg_def as_default_result_def

lemma sint_to_c_int: "- (2 ^ 31) \<le> n \<Longrightarrow> n < 2 ^ 31 \<Longrightarrow> sint (to_c_int n) = n"
  by (simp add: to_c_int_def sint_sbintrunc' signed_take_bit_int_eq_self)

lemma as_default_arg_uint: "as_default_arg (uint h) = scast (ucast h :: c_int)"
  by (simp only: as_default_arg_def to_c_int_def ucast_eq)

lemma as_default_arg_result: "as_default_arg (as_default_result h) = scast (ucast h :: c_int)"
  by (simp add: as_default_arg_def as_default_result_def to_c_int_def)

lemma survives_examples: "survives_c_int 1 \<and> \<not> survives_c_int 0x100000001"
  by (simp add: survives_c_int_def)

lemma survives_arg: "survives_c_int h \<Longrightarrow> as_default_arg (uint h) = h"
  by (simp add: as_default_arg_uint survives_c_int_def)

lemma survives_result: "survives_c_int h \<Longrightarrow> as_default_arg (as_default_result h) = h"
  by (simp add: as_default_arg_result survives_c_int_def)

lemma length_write_bytes [simp]: "length (write_bytes d b) = length b"
  by (simp add: write_bytes_def)

lemma py_int_world: "snd (py_int v w) = w"
  by (simp add: py_int_def split: pyval.splits option.splits dtype.splits)

subsection \<open>The minimal action set\<close>

text \<open>
  Claim C8. For every instance and every state of the world, \<open>getMinimalActionSet()\<close>
  is the same computation as \<open>getLegalActionSet()\<close>: it returns the same result and
  leaves the same world behind.
\<close>

theorem getMinimalActionSet_is_getLegalActionSet:
  "getMinimalActionSet L self w = getLegalActionSet L self w"
  by (simp add: getMinimalActionSet_def)

subsection \<open>Stepping\<close>

text \<open>
  Claim C6. For every action \<open>a\<close> on which \<open>int(a)\<close> succeeds with value \<open>n\<close>, \<open>act(a)\<close>
  makes exactly one native call, \<open>act\<close> on the instance handle with \<open>n\<close> converted to a C
  int (which is \<open>n\<close> itself whenever \<open>n\<close> fits 32 bits), and returns that call's C int
  result as a Python integer; \<open>game_over()\<close> makes exactly one native call, \<open>gameOver\<close> on
  the instance handle, and returns its boolean result.
\<close>

theorem act_game_over_marshal:
  assumes "fst (py_int action w) = Inr n"
  shows "act L self action w =
           (map_sum id sint (fst (n_act L (obj self) (to_c_int n) w)),
            snd (n_act L (obj self) (to_c_int n) w))
       \<and> calls (snd (act L self action w)) = calls w @ [N_act (obj self) (to_c_int n)]
       \<and> (- (2 ^ 31) \<le> n \<and> n < 2 ^ 31 \<longrightarrow> sint (to_c_int n) = n)
       \<and> game_over L self w = n_gameOver L (obj self) w
       \<and> calls (snd (game_over L self w)) = calls w @ [N_gameOver (obj self)]"
proof -
  have pw: "py_int action w = (Inr n, w)"
    using assms py_int_world [of action w] by (metis prod.collapse)
  have a: "act L self action w =
           (map_sum id sint (fst (n_act L (obj self) (to_c_int n) w)),
            snd (n_act L (obj self) (to_c_int n) w))"
    by (simp add: act_def py_defs pw split: prod.splits sum.splits)
  have b: "calls (snd (n_act L (obj self) (to_c_int n) w)) =
           calls w @ [N_act (obj self) (to_c_int n)]"
    by (simp add: n_act_def nat_defs split: option.splits)
  have c: "- (2 ^ 31) \<le> n \<and> n < 2 ^ 31 \<longrightarrow> sint (to_c_int n) = n"
    by (simp add: sint_to_c_int)
  have d: "calls (snd (n_gameOver L (obj self) w)) = calls w @ [N_gameOver (obj self)]"
    by (simp add: n_gameOver_def nat_defs py_defs split: option.splits)
  show ?thesis using a b c d by (simp add: game_over_def)
qed

theorem act_game_over_marshal_witness:
  "fst (act toy_core toy_nes (PyInt 5) toy_world) = Inr 6
 \<and> calls (snd (act toy_core toy_nes (PyInt 5) toy_world)) = [N_act 1 5]
 \<and> sint (to_c_int 5) = 5
 \<and> fst (game_over toy_core toy_nes toy_world) = Inr False
 \<and> calls (snd (game_over toy_core toy_nes toy_world)) = [N_gameOver 1]"
proof -
  have h: "fst (py_int (PyInt 5) toy_world) = Inr 5"
    by (simp add: py_int_def)
  show ?thesis
    using act_game_over_marshal [OF h, of toy_core toy_nes]
    by (simp add: n_act_def n_gameOver_def nat_defs py_defs toy_defs)
qed

subsection \<open>Serialization of snapshots\<close>

lemma encodeState_result: "fst (encodeState L self state buf w) = Inr v \<Longrightarrow> v = PyNone"
  by (auto simp add: encodeState_def py_defs split: prod.splits sum.splits if_splits)

lemma encodeState_big:
  "arrays w r = Some a \<Longrightarrow> 2 \<le> arr_size a \<Longrightarrow>
   encodeState L self state (PyArr r) w = (Inl ValueError, w)"
  by (simp add: encodeState_def py_defs eq_None_test_def)

text \<open>
  Claim C10. \<open>encodeState\<close> never returns the encoded bytes: whenever it returns, the value
  is \<open>None\<close>. Called with a numpy buffer of two or more elements it raises (the truth
  value of \<open>buf == None\<close> is ambiguous) and leaves the world as it found it: no native
  function has been called and no array has been written.
\<close>

theorem encodeState_returns_None:
  "(fst (encodeState L self state buf w) = Inr v \<longrightarrow> v = PyNone)
 \<and> (arrays w r = Some a \<and> 2 \<le> arr_size a \<longrightarrow>
      encodeState L self state (PyArr r) w = (Inl ValueError, w))"
  using encodeState_result encodeState_big by blast

theorem encodeState_returns_None_witness:
  "fst (encodeState toy_core toy_nes 2 PyNone toy_world) = Inr PyNone
 \<and> encodeState toy_core toy_nes 2 (PyArr 0) toy_world = (Inl ValueError, toy_world)"
proof -
  have a: "fst (encodeState toy_core toy_nes 2 PyNone toy_world) = Inr PyNone"
    by (simp add: encodeState_def py_defs nat_defs np_defs n_encodeStateLen_def
        n_encodeState_def toy_defs)
  have b: "arrays toy_world 0 = Some \<lparr>dtype_of = UInt8, shape = [4], raw = [0, 0, 0, 0]\<rparr>
      \<and> 2 \<le> arr_size \<lparr>dtype_of = UInt8, shape = [4], raw = [0, 0, 0, 0]\<rparr>"
    by (simp add: toy_world_def arr_size_def)
  show ?thesis
    using a b encodeState_returns_None [of toy_core toy_nes 2 PyNone toy_world PyNone 0
        "\<lparr>dtype_of = UInt8, shape = [4], raw = [0, 0, 0, 0]\<rparr>"]
    by simp
qed

text \<open>
  Claim C1. The round trip \<open>decodeState(encodeState(s))\<close> needs \<open>encodeState\<close> to hand the
  serialization to its caller. On a live snapshot (handle 2 of the small world) the method
  fills a buffer it allocated itself and returns \<open>None\<close>; \<open>decodeState\<close> applied to that
  result raises.
\<close>

theorem encodeState_decodeState_no_round_trip:
  "fst (encodeState toy_core toy_nes 2 PyNone toy_world) = Inr PyNone
 \<and> calls (snd (encodeState toy_core toy_nes 2 PyNone toy_world)) =
     [N_encodeStateLen 2, N_encodeState 2 1 6]
 \<and> fst (decodeState toy_core toy_nes PyNone
        (snd (encodeState toy_core toy_nes 2 PyNone toy_world))) = Inl AttributeError"
  by (simp add: encodeState_def decodeState_def py_defs nat_defs np_defs n_encodeStateLen_def
        n_encodeState_def toy_defs)

subsection \<open>Buffers\<close>

















subsection \<open>The RGB screen\<close>

lemma init_Inr:
  assumes "NESInterface_init L rom w0 = (Inr self, w1)"
  shows "\<exists>e. load_rom L rom = Inr e
    \<and> obj self = next_handle w0
    \<and> width self = sint (screen_width L (cart e))
    \<and> height self = sint (screen_height L (cart e))
    \<and> w1 = w0\<lparr>emus := (emus w0)(next_handle w0 \<mapsto> e), next_handle := next_handle w0 + 1,
              calls := calls w0 @ [N_NESInterface rom, N_getScreenWidth (next_handle w0),
                N_getScreenHeight (next_handle w0)]\<rparr>"
  using assms
  by (auto simp add: NESInterface_init_def getScreenDims_def n_NESInterface_def
      n_getScreenWidth_def n_getScreenHeight_def py_defs nat_defs split: sum.splits)

lemma getScreenDims_live:
  "emus w (obj self) = Some e \<Longrightarrow>
    fst (getScreenDims L self w) = Inr (sint (screen_width L (cart e)), sint (screen_height L (cart e)))"
  by (simp add: getScreenDims_def n_getScreenWidth_def n_getScreenHeight_def py_defs nat_defs)

lemma getScreenRBG_None:
  assumes "emus w (obj self) = Some e" "0 \<le> height self" "0 \<le> width self"
  shows "getScreenRBG L self PyNone w =
    (Inr (PyArr (Suc (next_ref w))),
     w\<lparr>arrays := (arrays w)
          (next_ref w \<mapsto>
             \<lparr>dtype_of = UInt8, shape = [nat (height self), nat (width self), 1],
              raw = write_bytes
                (take (nat (sint (to_c_int (height self * width self)))) (frame_of L (ppu (live e))))
                (map (junk w) [0 ..< nat (height self) * nat (width self)])\<rparr>,
           Suc (next_ref w) \<mapsto>
             \<lparr>dtype_of = UInt8, shape = [nat (height self), nat (width self), 3],
              raw = write_bytes
                (concat (map (\<lambda>b. take 3 (palette_rgb L (ppu (live e)) b))
                   (take (nat (sint (to_c_int (height self * width self))))
                      (write_bytes
                        (take (nat (sint (to_c_int (height self * width self))))
                           (frame_of L (ppu (live e))))
                        (map (junk w) [0 ..< nat (height self) * nat (width self)])))))
                (map (junk w) [0 ..< nat (height self) * (nat (width self) * 3)])\<rparr>),
       next_ref := Suc (Suc (next_ref w)),
       calls := calls w @
         [N_getScreen (obj self) (next_ref w) (to_c_int (height self * width self)),
          N_fillRGBfromPalette (obj self) (next_ref w) (Suc (next_ref w))
            (to_c_int (height self * width self))]\<rparr>)"
  using assms
  by (simp add: getScreenRBG_def py_defs np_defs n_getScreen_def n_fillRGBfromPalette_def
      nat_defs nat_mult_distrib)

text \<open>
  Claim C7. On an instance built by the constructor (which queried the native width and
  then height, and stored them), still live, with non-negative dimensions,
  \<open>getScreenRBG()\<close> calls the native \<open>getScreen\<close> on a \<open>(height, width, 1)\<close> array and then
  \<open>fillRGBfromPalette\<close> from that array into a new uint8 array of shape
  \<open>(height, width, 3)\<close>, which it returns; that array holds the palette's RGB triple of
  each index the first call delivered.
\<close>

theorem getScreenRBG_resolves_palette:
  assumes "NESInterface_init L rom w0 = (Inr self, w1)"
    and "emus w (obj self) = Some e"
    and "0 \<le> height self" "0 \<le> width self"
  shows
   "calls w1 = calls w0 @ [N_NESInterface rom, N_getScreenWidth (obj self),
       N_getScreenHeight (obj self)]
  \<and> fst (getScreenDims L self w1) = Inr (width self, height self)
  \<and> fst (getScreenRBG L self PyNone w) = Inr (PyArr (Suc (next_ref w)))
  \<and> map_option dtype_of (arrays (snd (getScreenRBG L self PyNone w)) (Suc (next_ref w)))
       = Some UInt8
  \<and> map_option shape (arrays (snd (getScreenRBG L self PyNone w)) (Suc (next_ref w)))
       = Some [nat (height self), nat (width self), 3]
  \<and> map_option (length \<circ> raw) (arrays (snd (getScreenRBG L self PyNone w)) (Suc (next_ref w)))
       = Some (nat (height self) * nat (width self) * 3)
  \<and> calls (snd (getScreenRBG L self PyNone w)) =
       calls w @
         [N_getScreen (obj self) (next_ref w) (to_c_int (height self * width self)),
          N_fillRGBfromPalette (obj self) (next_ref w) (Suc (next_ref w))
            (to_c_int (height self * width self))]
  \<and> peek (Suc (next_ref w)) (snd (getScreenRBG L self PyNone w)) =
       write_bytes
         (concat (map (\<lambda>b. take 3 (palette_rgb L (ppu (live e)) b))
            (take (nat (sint (to_c_int (height self * width self))))
               (peek (next_ref w) (snd (getScreenRBG L self PyNone w))))))
         (map (junk w) [0 ..< nat (height self) * nat (width self) * 3])"
proof -
  obtain e0 where i: "load_rom L rom = Inr e0" "obj self = next_handle w0"
    "width self = sint (screen_width L (cart e0))"
    "height self = sint (screen_height L (cart e0))"
    "w1 = w0\<lparr>emus := (emus w0)(next_handle w0 \<mapsto> e0), next_handle := next_handle w0 + 1,
              calls := calls w0 @ [N_NESInterface rom, N_getScreenWidth (next_handle w0),
                N_getScreenHeight (next_handle w0)]\<rparr>"
    using init_Inr [OF assms(1)] by blast
  have a: "calls w1 = calls w0 @ [N_NESInterface rom, N_getScreenWidth (obj self),
       N_getScreenHeight (obj self)]"
    using i by simp
  have l1: "emus w1 (obj self) = Some e0" using i by simp
  have b: "fst (getScreenDims L self w1) = Inr (width self, height self)"
    using getScreenDims_live [OF l1, of L] i by simp
  note r = getScreenRBG_None [OF assms(2,3,4), of L]
  show ?thesis
    using a b by (simp add: r peek_def mult.assoc)
qed

theorem getScreenRBG_resolves_palette_witness:
  "NESInterface_init toy_core ''mario.nes'' empty_world =
     (Inr toy_nes, snd (NESInterface_init toy_core ''mario.nes'' empty_world))
 \<and> fst (getScreenDims toy_core toy_nes
        (snd (NESInterface_init toy_core ''mario.nes'' empty_world))) = Inr (2, 2)
 \<and> fst (getScreenRBG toy_core toy_nes PyNone toy_world) = Inr (PyArr 2)
 \<and> map_option shape (arrays (snd (getScreenRBG toy_core toy_nes PyNone toy_world)) 2)
      = Some [2, 2, 3]
 \<and> calls (snd (getScreenRBG toy_core toy_nes PyNone toy_world)) =
      [N_getScreen 1 1 4, N_fillRGBfromPalette 1 1 2 4]
 \<and> peek 2 (snd (getScreenRBG toy_core toy_nes PyNone toy_world)) =
      [1, 2, 3, 2, 3, 4, 3, 4, 5, 4, 5, 6]"
proof -
  have h1: "NESInterface_init toy_core ''mario.nes'' empty_world =
     (Inr toy_nes, snd (NESInterface_init toy_core ''mario.nes'' empty_world))"
    by (simp add: NESInterface_init_def getScreenDims_def n_NESInterface_def
      n_getScreenWidth_def n_getScreenHeight_def py_defs nat_defs toy_defs empty_world_def)
  have h2: "emus toy_world (obj toy_nes) = Some toy_emu"
    by (simp add: toy_world_def toy_nes_def)
  have h3: "0 \<le> height toy_nes" "0 \<le> width toy_nes" by (simp_all add: toy_nes_def)
  have p: "peek (Suc 0) (snd (getScreenRBG toy_core toy_nes PyNone toy_world)) = [1, 2, 3, 4]"
    unfolding getScreenRBG_None [OF h2 h3]
    by (simp add: peek_def toy_defs write_bytes_def)
  have v: "next_ref toy_world = 1" "calls toy_world = []" "obj toy_nes = 1"
    "height toy_nes = 2" "width toy_nes = 2" "junk toy_world = (\<lambda>_. 0)"
    "ppu (live toy_emu) = [1, 2, 3, 4]" "palette_rgb toy_core = (\<lambda>p b. [b, b + 1, b + 2])"
    "sint (to_c_int 4) = 4" "to_c_int 4 = 4"
    by (simp_all add: toy_defs)
  show ?thesis
    using getScreenRBG_resolves_palette [OF h1 h2 h3] h1
    by (simp add: p v write_bytes_def numeral_2_eq_2)
qed

subsection \<open>Instances do not share state\<close>

text \<open>As long as the instance's handle survives the conversion to a C int, what a step or
  an observation shows depends on the world only through the emulator behind that handle
  (and on the dimensions stored in the instance).\<close>

lemma act_sim:
  assumes "emus w1 (obj s1) = emus w2 (obj s2)"
  shows "fst (act L s1 (PyInt a) w1) = fst (act L s2 (PyInt a) w2)
    \<and> emus (snd (act L s1 (PyInt a) w1)) (obj s1) = emus (snd (act L s2 (PyInt a) w2)) (obj s2)"
  using assms
  by (simp add: act_def py_int_def n_act_def py_defs nat_defs split: option.splits)

lemma getScreen_sim:
  assumes "emus w1 (obj s1) = emus w2 (obj s2)" "width s1 = width s2" "height s1 = height s2"
  shows "map_sum id (\<lambda>v. contents v (snd (getScreen L s1 PyNone w1))) (fst (getScreen L s1 PyNone w1))
       = map_sum id (\<lambda>v. contents v (snd (getScreen L s2 PyNone w2))) (fst (getScreen L s2 PyNone w2))
    \<and> emus (snd (getScreen L s1 PyNone w1)) (obj s1) = emus (snd (getScreen L s2 PyNone w2)) (obj s2)"
  using assms
  by (simp add: getScreen_def n_getScreen_def py_defs nat_defs np_defs contents_def
      split: option.splits)

lemma getRAM_sim:
  assumes "emus w1 (obj s1) = emus w2 (obj s2)" "survives_c_int (obj s1)" "survives_c_int (obj s2)"
  shows "map_sum id (\<lambda>v. contents v (snd (getRAM L s1 PyNone w1))) (fst (getRAM L s1 PyNone w1))
       = map_sum id (\<lambda>v. contents v (snd (getRAM L s2 PyNone w2))) (fst (getRAM L s2 PyNone w2))
    \<and> emus (snd (getRAM L s1 PyNone w1)) (obj s1) = emus (snd (getRAM L s2 PyNone w2)) (obj s2)"
  using assms
  by (simp add: getRAM_def n_getRAM_def n_getRAMSize_def py_defs nat_defs np_defs contents_def
      survives_arg split: option.splits)

lemma getLegalActionSet_sim:
  assumes "emus w1 (obj s1) = emus w2 (obj s2)"
  shows "map_sum id (\<lambda>v. contents v (snd (getLegalActionSet L s1 w1))) (fst (getLegalActionSet L s1 w1))
       = map_sum id (\<lambda>v. contents v (snd (getLegalActionSet L s2 w2))) (fst (getLegalActionSet L s2 w2))
    \<and> emus (snd (getLegalActionSet L s1 w1)) (obj s1) = emus (snd (getLegalActionSet L s2 w2)) (obj s2)"
  using assms
  by (simp add: getLegalActionSet_def n_getLegalActionSet_def n_getNumLegalActions_def
      py_defs nat_defs np_defs contents_def split: option.splits)


lemma then_py_alt:
  "then_py m f w = (case fst (m w) of Inl e \<Rightarrow> (Inl e, snd (m w)) | Inr x \<Rightarrow> f x (snd (m w)))"
  by (simp add: then_py_def split: prod.splits sum.splits)

lemma map_sum_id_eq:
  "map_sum id f x = map_sum id g y \<Longrightarrow>
     (\<exists>e. x = Inl e \<and> y = Inl e) \<or> (\<exists>u v. x = Inr u \<and> y = Inr v \<and> f u = g v)"
  by (cases x; cases y) auto

lemma step_obs_sim:
  assumes "emus w1 (obj s1) = emus w2 (obj s2)" "width s1 = width s2" "height s1 = height s2"
    and "survives_c_int (obj s1)" "survives_c_int (obj s2)"
  shows "fst (step_obs L s1 a w1) = fst (step_obs L s2 a w2)
    \<and> emus (snd (step_obs L s1 a w1)) (obj s1) = emus (snd (step_obs L s2 a w2)) (obj s2)"
proof -
  note A = act_sim [OF assms(1), of L a]
  note C = getScreen_sim [OF A [THEN conjunct2] assms(2,3), of L]
  note E = getRAM_sim [OF C [THEN conjunct2] assms(4,5), of L]
  show ?thesis
    using A map_sum_id_eq [OF C [THEN conjunct1]] map_sum_id_eq [OF E [THEN conjunct1]]
      C [THEN conjunct2] E [THEN conjunct2]
    by (auto simp add: step_obs_def then_py_alt split: sum.splits)
qed

lemma observe_sim:
  assumes "emus w1 (obj s1) = emus w2 (obj s2)" "width s1 = width s2" "height s1 = height s2"
    and "survives_c_int (obj s1)" "survives_c_int (obj s2)"
  shows "observable L s1 w1 = observable L s2 w2"
proof -
  note A = getRAM_sim [OF assms(1,4,5), of L]
  note C = getScreen_sim [OF A [THEN conjunct2] assms(2,3), of L]
  note E = getLegalActionSet_sim [OF C [THEN conjunct2], of L]
  show ?thesis
    using map_sum_id_eq [OF A [THEN conjunct1]] map_sum_id_eq [OF C [THEN conjunct1]]
      map_sum_id_eq [OF E [THEN conjunct1]]
    by (auto simp add: observable_def observe_def then_py_alt split: sum.splits)
qed

lemma episode_Cons_alt:
  "episode L s (a # as) w =
     (case fst (step_obs L s a w) of
        Inl err \<Rightarrow> (([], Some err), snd (step_obs L s a w))
      | Inr ob \<Rightarrow>
          ((ob # fst (fst (episode L s as (snd (step_obs L s a w)))),
            snd (fst (episode L s as (snd (step_obs L s a w))))),
           snd (episode L s as (snd (step_obs L s a w)))))"
  by (simp split: prod.splits sum.splits)

lemma fresh_run_alt:
  "fresh_run L rom acts w =
     (case fst (NESInterface_init L rom w) of
        Inl err \<Rightarrow> (([], Some err), snd (NESInterface_init L rom w))
      | Inr self \<Rightarrow> episode L self acts (snd (NESInterface_init L rom w)))"
  by (simp add: fresh_run_def split: prod.splits sum.splits)

lemma episode_sim:
  assumes "emus w1 (obj s1) = emus w2 (obj s2)" "width s1 = width s2" "height s1 = height s2"
    and "survives_c_int (obj s1)" "survives_c_int (obj s2)"
  shows "fst (episode L s1 acts w1) = fst (episode L s2 acts w2)"
  using assms(1)
proof (induction acts arbitrary: w1 w2)
  case Nil
  show ?case by simp
next
  case (Cons a acts)
  note S = step_obs_sim [OF Cons.prems assms(2,3,4,5), of L a]
  show ?case
  proof (cases "fst (step_obs L s1 a w1)")
    case (Inl err)
    then show ?thesis using S by (simp add: episode_Cons_alt del: episode.simps(2))
  next
    case (Inr ob)
    have "fst (episode L s1 acts (snd (step_obs L s1 a w1)))
        = fst (episode L s2 acts (snd (step_obs L s2 a w2)))"
      using Cons.IH [OF S [THEN conjunct2]] .
    moreover have "fst (step_obs L s2 a w2) = Inr ob" using S Inr by simp
    ultimately show ?thesis
      by (simp add: episode_Cons_alt Inr del: episode.simps(2))
  qed
qed

lemma init_Inl:
  assumes "fst (NESInterface_init L rom w0) = Inl err"
  shows "load_rom L rom = Inl err"
  using assms
  by (auto simp add: NESInterface_init_def getScreenDims_def n_NESInterface_def
      n_getScreenWidth_def n_getScreenHeight_def py_defs nat_defs split: sum.splits)

lemma init_total:
  "(\<exists>err. load_rom L rom = Inl err \<and> fst (NESInterface_init L rom w0) = Inl err)
 \<or> (\<exists>self w1. NESInterface_init L rom w0 = (Inr self, w1))"
  by (auto simp add: NESInterface_init_def getScreenDims_def n_NESInterface_def
      n_getScreenWidth_def n_getScreenHeight_def py_defs nat_defs split: sum.splits)

lemma replay_same_when_handles_survive:
  assumes "survives_c_int (next_handle w1)" "survives_c_int (next_handle w2)"
  shows "fst (fresh_run L rom acts w1) = fst (fresh_run L rom acts w2)"
proof (cases "load_rom L rom")
  case (Inl err)
  have "fst (NESInterface_init L rom w1) = Inl err" "fst (NESInterface_init L rom w2) = Inl err"
    using Inl init_total [of L rom w1] init_total [of L rom w2] init_Inr by fastforce+
  then show ?thesis by (simp add: fresh_run_alt)
next
  case (Inr e)
  obtain s1 v1 where i1: "NESInterface_init L rom w1 = (Inr s1, v1)"
    using Inr init_total [of L rom w1] by auto
  obtain s2 v2 where i2: "NESInterface_init L rom w2 = (Inr s2, v2)"
    using Inr init_total [of L rom w2] by auto
  from init_Inr [OF i1] init_Inr [OF i2] Inr assms
  have "emus v1 (obj s1) = emus v2 (obj s2)" "width s1 = width s2" "height s1 = height s2"
    "survives_c_int (obj s1)" "survives_c_int (obj s2)"
    by auto
  from episode_sim [OF this]
  show ?thesis by (simp add: fresh_run_def i1 i2)
qed

text \<open>
  Claim C3. Two freshly constructed instances on the same ROM, fed the same actions, must
  show the same rewards, frame buffers and RAM contents after every step. \<open>act\<close> and
  \<open>getScreen\<close> declare \<open>c_void_p\<close> and address the new instance; \<open>getRAM\<close> declares nothing
  and addresses whatever lives at the handle cut to 32 bits. Constructed where the
  allocator stands at \<open>2^32 + 1\<close>, the second instance reports the RAM of the older
  instance at handle 1 after every step, while the first, constructed at handle 1, reports
  its own.
\<close>

theorem replay_differs_when_handle_is_cut:
  "fst (fresh_run toy_core ''mario.nes'' [1, 2] empty_world)
     = ([(2, [2, 3, 4, 5], [8, 10]), (3, [3, 4, 5, 6], [10, 12])], None)
 \<and> fst (fresh_run toy_core ''mario.nes'' [1, 2] (far_world 0x100000001))
     = ([(2, [2, 3, 4, 5], [10, 12]), (3, [3, 4, 5, 6], [10, 12])], None)"
  by (simp add: fresh_run_def NESInterface_init_def getScreenDims_def n_NESInterface_def
      n_getScreenWidth_def n_getScreenHeight_def step_obs_def act_def py_int_def n_act_def
      getScreen_def n_getScreen_def getRAM_def n_getRAM_def n_getRAMSize_def contents_def
      py_defs nat_defs np_defs toy_defs empty_world_def far_world_def write_bytes_def)

subsection \<open>Snapshots\<close>

lemma cloneState_live:
  assumes "emus w (obj self) = Some e" "survives_c_int (obj self)"
  shows "cloneState L self w =
    (Inr (as_default_result (next_handle w)),
     w\<lparr>snaps := (snaps w)(next_handle w \<mapsto> capture L (live e)),
       next_handle := next_handle w + 1,
       calls := calls w @ [N_cloneState (obj self)]\<rparr>)"
  using assms by (simp add: cloneState_def n_cloneState_def nat_defs py_defs survives_arg)

lemma restoreState_live:
  assumes "emus w (obj self) = Some e" "survives_c_int (obj self)"
    and "snaps w (as_default_arg s) = Some sn"
  shows "restoreState L self s w =
    (case restore L (cart e) sn of
       Inl err \<Rightarrow> (Inl err, w\<lparr>calls := calls w @ [N_restoreState (obj self) (as_default_arg s)]\<rparr>)
     | Inr m \<Rightarrow> (Inr (), w\<lparr>emus := (emus w)(obj self \<mapsto> e\<lparr>live := m\<rparr>),
                           calls := calls w @ [N_restoreState (obj self) (as_default_arg s)]\<rparr>))"
  using assms
  by (simp add: restoreState_def n_restoreState_def nat_defs survives_arg split: sum.splits)

lemma restore_capture:
  "restore L c (capture L m) =
     (if length (ram m) \<noteq> ram_size L c then Inl IncompatibleSnapshot else Inr m)"
  by (simp add: restore_def capture_def)

lemma act_live:
  assumes "emus w (obj self) = Some e"
  shows "act L self (PyInt a) w =
    (Inr (sint (snd (run_frame L (cart e) (to_c_int a) (live e)))),
     w\<lparr>emus := (emus w)(obj self \<mapsto> e\<lparr>live := fst (run_frame L (cart e) (to_c_int a) (live e))\<rparr>),
       calls := calls w @ [N_act (obj self) (to_c_int a)]\<rparr>)"
  using assms by (simp add: act_def py_int_def n_act_def py_defs nat_defs)

lemma act_seq_inv:
  assumes "emus w (obj self) = Some e"
  shows "fst (act_seq L self acts w) = Inr ()
    \<and> snaps (snd (act_seq L self acts w)) = snaps w
    \<and> (\<exists>e'. emus (snd (act_seq L self acts w)) (obj self) = Some e' \<and> cart e' = cart e)"
  using assms
proof (induction acts arbitrary: w e)
  case Nil
  then show ?case by (simp add: ret_def)
next
  case (Cons a acts)
  let ?e = "e\<lparr>live := fst (run_frame L (cart e) (to_c_int a) (live e))\<rparr>"
  let ?w = "snd (act L self (PyInt a) w)"
  have l: "emus ?w (obj self) = Some ?e" by (simp add: act_live [OF Cons.prems])
  have s: "snaps ?w = snaps w" by (simp add: act_live [OF Cons.prems])
  have f: "fst (act L self (PyInt a) w) = Inr (sint (snd (run_frame L (cart e) (to_c_int a) (live e))))"
    by (simp add: act_live [OF Cons.prems])
  show ?case
    using Cons.IH [OF l] s f by (simp add: then_py_alt)
qed

lemma observe_frame:
  "emus (snd (observe L self w)) = emus w \<and> snaps (snd (observe L self w)) = snaps w
   \<and> next_handle (snd (observe L self w)) = next_handle w"
  by (simp add: observe_def getRAM_def n_getRAM_def n_getRAMSize_def getScreen_def
      n_getScreen_def getLegalActionSet_def n_getLegalActionSet_def n_getNumLegalActions_def
      py_defs nat_defs np_defs split: option.splits)

text \<open>Where both the instance handle and the snapshot pointer survive the conversion to a
  C int, restoring an immediately captured snapshot changes nothing that can be observed,
  and a snapshot restored after further \<open>act\<close> calls gives what restoring it at once gives.\<close>

lemma restore_of_capture_when_handles_survive:
  assumes "emus w (obj self) = Some e"
    and "survives_c_int (obj self)" "survives_c_int (next_handle w)"
  shows "fst (cloneState L self w) = Inr (as_default_result (next_handle w))
    \<and> observable L self
         (snd (restoreState L self (as_default_result (next_handle w)) (snd (cloneState L self w))))
       = observable L self w
    \<and> (length (ram (live e)) = ram_size L (cart e) \<longrightarrow>
         fst (restoreState L self (as_default_result (next_handle w))
                (snd (cloneState L self w))) = Inr ())"
proof -
  let ?s = "as_default_result (next_handle w)"
  let ?w1 = "snd (cloneState L self w)"
  let ?w2 = "snd (restoreState L self ?s ?w1)"
  note c = cloneState_live [OF assms(1,2), of L]
  have l1: "emus ?w1 (obj self) = Some e"
    and s1: "snaps ?w1 (as_default_arg ?s) = Some (capture L (live e))"
    by (simp_all add: c assms(1) survives_result [OF assms(3)])
  note r = restoreState_live [OF l1 assms(2) s1]
  have "emus ?w2 (obj self) = emus w (obj self)"
    by (simp add: r restore_capture assms(1) l1)
  then have "observable L self ?w2 = observable L self w"
    by (rule observe_sim) (simp_all add: assms(2))
  moreover have "fst (cloneState L self w) = Inr ?s"
    by (simp add: c)
  moreover have "length (ram (live e)) = ram_size L (cart e) \<longrightarrow>
         fst (restoreState L self ?s ?w1) = Inr ()"
    by (simp add: r restore_capture)
  ultimately show ?thesis by blast
qed

lemma snapshot_kept_when_handles_survive:
  assumes "emus w (obj self) = Some e"
    and "survives_c_int (obj self)" "survives_c_int (next_handle w)"
  shows "fst (act_seq L self acts (snd (cloneState L self w))) = Inr ()
    \<and> fst (restoreState L self (as_default_result (next_handle w))
              (snd (act_seq L self acts (snd (cloneState L self w)))))
        = fst (restoreState L self (as_default_result (next_handle w)) (snd (cloneState L self w)))
    \<and> (fst (restoreState L self (as_default_result (next_handle w))
               (snd (cloneState L self w))) = Inr () \<longrightarrow>
         observable L self
           (snd (restoreState L self (as_default_result (next_handle w))
              (snd (act_seq L self acts (snd (cloneState L self w)))))) =
         observable L self
           (snd (restoreState L self (as_default_result (next_handle w))
              (snd (cloneState L self w)))))"
proof -
  let ?s = "as_default_result (next_handle w)"
  let ?w1 = "snd (cloneState L self w)"
  let ?w2 = "snd (act_seq L self acts ?w1)"
  note c = cloneState_live [OF assms(1,2), of L]
  have l1: "emus ?w1 (obj self) = Some e"
    and s1: "snaps ?w1 (as_default_arg ?s) = Some (capture L (live e))"
    by (simp_all add: c assms(1) survives_result [OF assms(3)])
  from act_seq_inv [OF l1, of L acts]
  obtain e' where a: "fst (act_seq L self acts ?w1) = Inr ()" "snaps ?w2 = snaps ?w1"
    and l2: "emus ?w2 (obj self) = Some e'" and ce: "cart e' = cart e"
    by blast
  have s2: "snaps ?w2 (as_default_arg ?s) = Some (capture L (live e))" using a s1 by simp
  note r1 = restoreState_live [OF l1 assms(2) s1]
  note r2 = restoreState_live [OF l2 assms(2) s2]
  have eq: "fst (restoreState L self ?s ?w2) = fst (restoreState L self ?s ?w1)"
    by (simp add: r1 r2 ce split: sum.splits)
  have ob: "fst (restoreState L self ?s ?w1) = Inr () \<longrightarrow>
      observable L self (snd (restoreState L self ?s ?w2)) =
      observable L self (snd (restoreState L self ?s ?w1))"
  proof
    assume ok: "fst (restoreState L self ?s ?w1) = Inr ()"
    then obtain m where m: "restore L (cart e) (capture L (live e)) = Inr m"
      by (cases "restore L (cart e) (capture L (live e))") (simp_all add: r1)
    have "emus (snd (restoreState L self ?s ?w2)) (obj self)
        = emus (snd (restoreState L self ?s ?w1)) (obj self)"
      using ce by (simp add: r1 r2 m)
    then show "observable L self (snd (restoreState L self ?s ?w2)) =
      observable L self (snd (restoreState L self ?s ?w1))"
      by (rule observe_sim) (simp_all add: assms(2))
  qed
  show ?thesis using a eq ob by simp
qed

lemmas run_defs = observable_def observe_def getRAM_def n_getRAM_def n_getRAMSize_def
  getScreen_def n_getScreen_def getLegalActionSet_def n_getLegalActionSet_def
  n_getNumLegalActions_def cloneState_def n_cloneState_def restoreState_def n_restoreState_def
  restore_def contents_def le32_def write_bytes_def act_def py_int_def n_act_def

text \<open>
  Claim C4. \<open>restoreState(cloneState())\<close> must leave the RAM, the frame buffer and the
  action set as they were. \<open>cloneState\<close> declares no \<open>restype\<close> and \<open>restoreState\<close> no
  \<open>argtypes\<close>, so of the snapshot pointer only the low 32 bits make the round trip. Where
  the allocator stands at \<open>2^32 + 2\<close>, the snapshot is stored at that address,
  \<open>cloneState\<close> returns 2, and \<open>restoreState(2)\<close> overwrites the live state from the older
  snapshot at handle 2: RAM and frame buffer are no longer what they were before the
  capture.
\<close>

theorem restore_of_capture_changes_state_when_pointer_is_cut:
  "observable toy_core toy_nes (far_world 0x100000002)
     = Inr ([10, 12], [3, 4, 5, 6], [0, 0, 0, 0, 1, 0, 0, 0])
 \<and> fst (cloneState toy_core toy_nes (far_world 0x100000002)) = Inr 2
 \<and> map_option s_ram
      (snaps (snd (cloneState toy_core toy_nes (far_world 0x100000002))) 0x100000002)
     = Some [10, 12]
 \<and> fst (restoreState toy_core toy_nes 2
          (snd (cloneState toy_core toy_nes (far_world 0x100000002)))) = Inr ()
 \<and> observable toy_core toy_nes
      (snd (restoreState toy_core toy_nes 2
         (snd (cloneState toy_core toy_nes (far_world 0x100000002)))))
     = Inr ([7, 9], [1, 2, 3, 4], [0, 0, 0, 0, 1, 0, 0, 0])"
  by (simp add: run_defs py_defs nat_defs np_defs toy_defs far_world_def)

text \<open>
  Claim C5. A snapshot must stay restorable after further \<open>act\<close> calls, with the result
  that restoring it at once would have had. Where the allocator stands at \<open>2^32 + 3\<close>,
  \<open>cloneState\<close> stores the snapshot at that address and returns 3. The \<open>act\<close> calls leave
  the snapshot as it was, but \<open>restoreState(3)\<close> names no snapshot: it raises, and the
  state the two actions produced stays, where the snapshot holds RAM \<open>[10, 12]\<close> and
  frame \<open>[3, 4, 5, 6]\<close>.
\<close>

theorem snapshot_not_restored_when_pointer_is_cut:
  "fst (cloneState toy_core toy_nes (far_world 0x100000003)) = Inr 3
 \<and> map_option s_ram
      (snaps (snd (act_seq toy_core toy_nes [1, 2]
         (snd (cloneState toy_core toy_nes (far_world 0x100000003))))) 0x100000003)
     = Some [10, 12]
 \<and> fst (restoreState toy_core toy_nes 3
          (snd (cloneState toy_core toy_nes (far_world 0x100000003)))) = Inl InvalidHandle
 \<and> observable toy_core toy_nes
      (snd (restoreState toy_core toy_nes 3
         (snd (cloneState toy_core toy_nes (far_world 0x100000003)))))
     = Inr ([10, 12], [3, 4, 5, 6], [0, 0, 0, 0, 1, 0, 0, 0])
 \<and> fst (restoreState toy_core toy_nes 3
          (snd (act_seq toy_core toy_nes [1, 2]
             (snd (cloneState toy_core toy_nes (far_world 0x100000003)))))) = Inl InvalidHandle
 \<and> observable toy_core toy_nes
      (snd (restoreState toy_core toy_nes 3
         (snd (act_seq toy_core toy_nes [1, 2]
            (snd (cloneState toy_core toy_nes (far_world 0x100000003)))))))
     = Inr ([13, 15], [5, 6, 7, 8], [0, 0, 0, 0, 1, 0, 0, 0])"
  by (simp add: run_defs py_defs nat_defs np_defs toy_defs far_world_def)

end
